theory Spec2Isabelle
  imports Main "HOL-Library.Sublist"
begin

section \<open>Go strings and the library functions the renderer calls\<close>

text \<open>
  A Go string is a sequence of bytes, so it is a \<^typ>\<open>string\<close> (a list of 8-bit
  characters) here; \<open>s[0]\<close> reads a byte and panics on the empty string, \<open>a + b\<close> is
  \<open>a @ b\<close>. The functions of package \<open>strings\<close> that \<open>fencedcode.go\<close> calls are
  modelled on bytes, as Go defines them.
\<close>

subsection \<open>strings.TrimSpace\<close>

text \<open>
  \<open>strings.TrimSpace\<close> removes the leading and the trailing white-space runes, white space
  being \<open>unicode.IsSpace\<close>: the six ASCII characters of the table \<open>asciiSpace\<close>, U+0085,
  U+00A0, U+1680, U+2000 to U+200A, U+2028, U+2029, U+202F, U+205F and U+3000. A rune is
  decoded from UTF-8, and an invalid byte decodes to U+FFFD, which is no white space; so
  a white-space rune stands at the start (at the end) of a string exactly when one of
  the encodings below is a prefix (a suffix) of it.
\<close>

definition asciiSpace :: "char list" where
  "asciiSpace = [CHR 0x09, CHR 0x0A, CHR 0x0B, CHR 0x0C, CHR 0x0D, CHR 0x20]"

definition spaceRunes :: "string list" where
  "spaceRunes =
     map (\<lambda>c. [c]) asciiSpace @
     [[CHR 0xC2, CHR 0x85], [CHR 0xC2, CHR 0xA0],
      [CHR 0xE1, CHR 0x9A, CHR 0x80],
      [CHR 0xE2, CHR 0x80, CHR 0x80], [CHR 0xE2, CHR 0x80, CHR 0x81],
      [CHR 0xE2, CHR 0x80, CHR 0x82], [CHR 0xE2, CHR 0x80, CHR 0x83],
      [CHR 0xE2, CHR 0x80, CHR 0x84], [CHR 0xE2, CHR 0x80, CHR 0x85],
      [CHR 0xE2, CHR 0x80, CHR 0x86], [CHR 0xE2, CHR 0x80, CHR 0x87],
      [CHR 0xE2, CHR 0x80, CHR 0x88], [CHR 0xE2, CHR 0x80, CHR 0x89],
      [CHR 0xE2, CHR 0x80, CHR 0x8A],
      [CHR 0xE2, CHR 0x80, CHR 0xA8], [CHR 0xE2, CHR 0x80, CHR 0xA9],
      [CHR 0xE2, CHR 0x80, CHR 0xAF],
      [CHR 0xE2, CHR 0x81, CHR 0x9F],
      [CHR 0xE3, CHR 0x80, CHR 0x80]]"

text \<open>The width in bytes of the white-space rune at the start of \<open>s\<close>, if there is one.\<close>

definition leadingSpace :: "string \<Rightarrow> nat option" where
  "leadingSpace s = map_option length (find (\<lambda>e. prefix e s) spaceRunes)"

definition trailingSpace :: "string \<Rightarrow> nat option" where
  "trailingSpace s = map_option length (find (\<lambda>e. suffix e s) spaceRunes)"

function TrimLeftSpace :: "string \<Rightarrow> string" where
  "TrimLeftSpace s =
     (case leadingSpace s of
        None \<Rightarrow> s
      | Some n \<Rightarrow> if 0 < n \<and> n \<le> length s then TrimLeftSpace (drop n s) else s)"
  by pat_completeness auto
termination
  by (relation "measure length") auto

function TrimRightSpace :: "string \<Rightarrow> string" where
  "TrimRightSpace s =
     (case trailingSpace s of
        None \<Rightarrow> s
      | Some n \<Rightarrow> if 0 < n \<and> n \<le> length s then TrimRightSpace (take (length s - n) s) else s)"
  by pat_completeness auto
termination
  by (relation "measure length") auto

declare TrimLeftSpace.simps [simp del] TrimRightSpace.simps [simp del]

definition TrimSpace :: "string \<Rightarrow> string" where
  "TrimSpace s = TrimRightSpace (TrimLeftSpace s)"

subsection \<open>strings.SplitN and strings.ToLower\<close>

text \<open>\<open>strings.IndexByte\<close>: the position of the first \<open>c\<close> in \<open>s\<close>; Go's \<open>-1\<close> is \<open>None\<close>.\<close>

fun IndexByte :: "string \<Rightarrow> char \<Rightarrow> nat option" where
  "IndexByte [] c = None"
| "IndexByte (x # xs) c = (if x = c then Some 0 else map_option Suc (IndexByte xs c))"

text \<open>
  \<open>strings.SplitN(s, sep, n)\<close> for a separator of one byte and \<open>n \<ge> 0\<close>: no piece for
  \<open>n = 0\<close>, else at most \<open>n\<close> pieces, the last one the unsplit rest.
\<close>

fun SplitN :: "string \<Rightarrow> char \<Rightarrow> nat \<Rightarrow> string list" where
  "SplitN s sep 0 = []"
| "SplitN s sep (Suc 0) = [s]"
| "SplitN s sep (Suc (Suc n)) =
     (case IndexByte s sep of
        None \<Rightarrow> [s]
      | Some m \<Rightarrow> take m s # SplitN (drop (m + 1) s) sep (Suc n))"

text \<open>
  \<open>strings.ToLower\<close>: a string of ASCII bytes only has its letters \<open>A\<close> to \<open>Z\<close> moved to
  \<open>a\<close> to \<open>z\<close>; any other string goes through \<open>strings.Map(unicode.ToLower, s)\<close>, whose
  Unicode case tables are not part of this repository: that path is the parameter
  \<open>uni\<close>.
\<close>

definition lowerByte :: "char \<Rightarrow> char" where
  "lowerByte c =
     (if of_char (CHR ''A'') \<le> (of_char c :: nat) \<and> (of_char c :: nat) \<le> of_char (CHR ''Z'')
      then char_of (of_char c + (32 :: nat)) else c)"

definition isASCII :: "string \<Rightarrow> bool" where
  "isASCII s = list_all (\<lambda>c. (of_char c :: nat) < 128) s"

definition ToLower :: "(string \<Rightarrow> string) \<Rightarrow> string \<Rightarrow> string" where
  "ToLower uni s = (if isASCII s then map lowerByte s else uni s)"

section \<open>The renderer of fenced code blocks\<close>

text \<open>
  A run-time panic of Go is a value: indexing a string out of range, and a failed type
  assertion on an \<open>interface{}\<close> value.
\<close>

datatype go_panic = IndexOutOfRange | InterfaceConversion

text \<open>
  The struct \<open>ConfluenceFencedCodeBlockHTMLRender\<close>; its embedded \<open>html.Config\<close> is
  never read by the functions below. The map \<open>MacroContentKeys\<close> has unit values, so
  it is a set of keys.
\<close>

record ConfluenceFencedCodeBlockHTMLRender =
  MacroContentKeys :: "string set"

definition LanguageStringConfluenceMacro :: string where
  "LanguageStringConfluenceMacro = ''CONFLUENCE-MACRO''"

definition MacroContentKeyPlainTextBody :: string where
  "MacroContentKeyPlainTextBody = ''plain-text-body''"

definition MacroContentKeyRichTextBody :: string where
  "MacroContentKeyRichTextBody = ''rich-text-body''"

definition DefaultCodeBlockLanguage :: string where
  "DefaultCodeBlockLanguage = ''plain''"

definition NewConfluenceFencedCodeBlockHTMLRender :: ConfluenceFencedCodeBlockHTMLRender where
  "NewConfluenceFencedCodeBlockHTMLRender =
     \<lparr>MacroContentKeys = {MacroContentKeyPlainTextBody, MacroContentKeyRichTextBody}\<rparr>"

text \<open>
  What the renderer reads of goldmark's \<open>ast.FencedCodeBlock\<close>: \<open>n.Language(source)\<close>,
  which is \<open>nil\<close> (\<open>None\<close>) for a fence with no info string, and the values of the
  segments \<open>n.Lines().At(i)\<close> in order, each a line of the body with its line ending.
\<close>

record FencedCodeBlock =
  Language :: "string option"
  Lines :: "string list"

text \<open>
  What the renderer writes: the bytes appended to the \<open>util.BufWriter\<close> (whose write
  errors the code discards), and the lines the builtin \<open>println\<close> prints.
\<close>

record io =
  buf :: string
  stderr :: "string list"

definition WriteString :: "string \<Rightarrow> io \<Rightarrow> io" where
  "WriteString s w = w\<lparr>buf := buf w @ s\<rparr>"

definition println :: "string \<Rightarrow> io \<Rightarrow> io" where
  "println s w = w\<lparr>stderr := stderr w @ [s]\<rparr>"

datatype WalkStatus = WalkStop | WalkSkipChildren | WalkContinue

subsection \<open>writeLines and writeMacro\<close>

definition writeLines ::
  "ConfluenceFencedCodeBlockHTMLRender \<Rightarrow> io \<Rightarrow> FencedCodeBlock \<Rightarrow> io"
where
  "writeLines r w n = foldl (\<lambda>w line. WriteString line w) w (Lines n)"

text \<open>
  One round of the loop of \<open>writeMacro\<close>, on the two builders \<open>macrostart\<close> and
  \<open>parameters\<close>. \<open>key[0]\<close> is read before \<open>keyValue[0][0]\<close>, and each panics on an
  empty string.
\<close>

definition macroLine ::
  "ConfluenceFencedCodeBlockHTMLRender \<Rightarrow> string \<Rightarrow> string \<times> string \<Rightarrow> go_panic + string \<times> string"
where
  \<open>macroLine r text = (\<lambda>(macrostart, parameters).
     let keyValue = SplitN text (CHR '':'') 2 in
     if length keyValue = 2 then
       let key = TrimSpace (keyValue ! 0);
           value = TrimSpace (keyValue ! 1)
       in (case key of
             [] \<Rightarrow> Inl IndexOutOfRange
           | k0 # _ \<Rightarrow>
               (case keyValue ! 0 of
                  [] \<Rightarrow> Inl IndexOutOfRange
                | c0 # _ \<Rightarrow>
                    if k0 = c0 then
                      if key \<in> MacroContentKeys r
                      then Inr (macrostart,
                                parameters @ ''<ac:'' @ key @ ''>'' @ value @ ''</ac:'' @ key @ ''>'')
                      else Inr (macrostart @ '' ac:'' @ key @ ''="'' @ value @ ''"'', parameters)
                    else Inr (macrostart,
                              parameters @ ''<ac:parameter ac:name="'' @ key @ ''">'' @ value
                                @ ''</ac:parameter>'')))
     else if length keyValue = 1 then
       let value = TrimSpace (keyValue ! 0)
       in Inr (macrostart, parameters @ ''<ac:parameter ac:name="">'' @ value @ ''</ac:parameter>'')
     else Inr (macrostart, parameters))\<close>

fun macroLoop ::
  "ConfluenceFencedCodeBlockHTMLRender \<Rightarrow> string list \<Rightarrow> string \<times> string \<Rightarrow> go_panic + string \<times> string"
where
  "macroLoop r [] b = Inr b"
| "macroLoop r (text # rest) b =
     (case macroLine r text b of
        Inl e \<Rightarrow> Inl e
      | Inr b' \<Rightarrow> macroLoop r rest b')"

definition writeMacro ::
  "ConfluenceFencedCodeBlockHTMLRender \<Rightarrow> io \<Rightarrow> FencedCodeBlock \<Rightarrow> go_panic + io"
where
  "writeMacro r w n =
     (case macroLoop r (Lines n) (''<ac:structured-macro'', '''') of
        Inl e \<Rightarrow> Inl e
      | Inr (macrostart, parameters) \<Rightarrow>
          Inr (WriteString ''</ac:structured-macro>''
                (WriteString parameters
                  (WriteString ''>''
                    (WriteString macrostart w)))))"

subsection \<open>The alias table: getSupportLanguage and loadSupportCodeLanguage\<close>

text \<open>
  A \<open>StringMap\<close> is a Go map from string to string. The package variable
  \<open>SupportedCodeBlockLanguages\<close> holds \<open>nil\<close> (\<open>None\<close>) or a map, so it is an argument of
  type \<open>StringMap option\<close>. \<open>fmt.Sprintf\<close> with \<open>%s\<close> inserts the bytes of a string.
\<close>

type_synonym StringMap = "string \<rightharpoonup> string"

definition getSupportLanguage :: "StringMap option \<Rightarrow> string \<Rightarrow> io \<Rightarrow> string \<times> io" where
  "getSupportLanguage SupportedCodeBlockLanguages key w =
     (case SupportedCodeBlockLanguages of
        None \<Rightarrow> (key, w)
      | Some m \<Rightarrow>
          (case m key of
             Some value \<Rightarrow> (value, w)
           | None \<Rightarrow>
               (DefaultCodeBlockLanguage,
                println (''Unsupported code block language: '' @ key @ '',Use ''
                           @ DefaultCodeBlockLanguage @ '' default'') w)))"

text \<open>
  What \<open>json.Unmarshal\<close> stores in an \<open>interface{}\<close>: \<open>nil\<close>, a bool, a float64 (whose
  value the code never reads), a string, a slice or a map.
\<close>

datatype json =
  JNull | JBool bool | JNumber | JString string | JArray "json list" | JObject "(string \<times> json) list"

text \<open>
  The type assertions \<open>x.(string)\<close> and \<open>x.([]interface{})\<close>, which panic on a value of
  another type; reading a key that a map does not hold gives \<open>nil\<close>, on which both panic.
\<close>

definition assertString :: "json option \<Rightarrow> go_panic + string" where
  "assertString x = (case x of Some (JString s) \<Rightarrow> Inr s | _ \<Rightarrow> Inl InterfaceConversion)"

definition assertSlice :: "json option \<Rightarrow> go_panic + json list" where
  "assertSlice x = (case x of Some (JArray xs) \<Rightarrow> Inr xs | _ \<Rightarrow> Inl InterfaceConversion)"

fun aliasLoop :: "json list \<Rightarrow> string \<Rightarrow> StringMap \<Rightarrow> go_panic + StringMap" where
  "aliasLoop [] name resultMap = Inr resultMap"
| "aliasLoop (a # rest) name resultMap =
     (case assertString (Some a) of
        Inl e \<Rightarrow> Inl e
      | Inr k \<Rightarrow> aliasLoop rest name (resultMap(k \<mapsto> name)))"

fun objLoop :: "(string \<rightharpoonup> json) list \<Rightarrow> StringMap \<Rightarrow> go_panic + StringMap" where
  "objLoop [] resultMap = Inr resultMap"
| "objLoop (obj # rest) resultMap =
     (case assertString (obj ''name'') of
        Inl e \<Rightarrow> Inl e
      | Inr name \<Rightarrow>
          (case assertSlice (obj ''aliases'') of
             Inl e \<Rightarrow> Inl e
           | Inr aliases \<Rightarrow>
               (case aliasLoop aliases name resultMap of
                  Inl e \<Rightarrow> Inl e
                | Inr resultMap' \<Rightarrow> objLoop rest resultMap')))"

text \<open>
  \<open>ReadFile\<close> stands for \<open>supportedCodeLanguagesFile.ReadFile\<close> and \<open>Unmarshal\<close> for
  \<open>json.Unmarshal\<close> into a \<open>[]map[string]interface{}\<close>; each gives \<open>Inl\<close> the error's
  text or \<open>Inr\<close> its result.
\<close>

definition loadSupportCodeLanguage ::
  "(string \<Rightarrow> string + string) \<Rightarrow> (string \<Rightarrow> string + (string \<rightharpoonup> json) list) \<Rightarrow>
   string \<Rightarrow> io \<Rightarrow> go_panic + StringMap option \<times> io"
where
  "loadSupportCodeLanguage ReadFile Unmarshal configFile w =
     (case ReadFile configFile of
        Inl err \<Rightarrow> Inr (None, println (''error reading file: '' @ err) w)
      | Inr jsonData \<Rightarrow>
          (case Unmarshal jsonData of
             Inl err \<Rightarrow> Inr (None, println (''error parsing JSON data: '' @ err) w)
           | Inr result \<Rightarrow>
               (case objLoop result Map.empty of
                  Inl e \<Rightarrow> Inl e
                | Inr resultMap \<Rightarrow> Inr (Some resultMap, w))))"

subsection \<open>renderConfluenceFencedCode\<close>

text \<open>
  The node renderer, called with \<open>entering\<close> true and then false for each fenced code
  block. It always returns \<open>ast.WalkContinue\<close> and a \<open>nil\<close> error; \<open>langs\<close> is the
  package variable \<open>SupportedCodeBlockLanguages\<close>.
\<close>

definition renderConfluenceFencedCode ::
  "ConfluenceFencedCodeBlockHTMLRender \<Rightarrow> StringMap option \<Rightarrow> (string \<Rightarrow> string) \<Rightarrow>
   io \<Rightarrow> FencedCodeBlock \<Rightarrow> bool \<Rightarrow> go_panic + io \<times> WalkStatus"
where
  \<open>renderConfluenceFencedCode r langs uni w n entering =
     (let language = Language n;
          langString = (case language of None \<Rightarrow> '''' | Some l \<Rightarrow> l)
      in if langString = LanguageStringConfluenceMacro then
           (if entering then
              (case writeMacro r w n of
                 Inl e \<Rightarrow> Inl e
               | Inr w' \<Rightarrow> Inr (w', WalkContinue))
            else Inr (w, WalkContinue))
         else if entering then
           (let s = ''<ac:structured-macro ac:name="code" ac:schema-version="1">'';
                s = s @ ''<ac:parameter ac:name="theme">Confluence</ac:parameter>'';
                s = s @ ''<ac:parameter ac:name="linenumbers">true</ac:parameter>'';
                (s, w) =
                  (case language of
                     None \<Rightarrow> (s, w)
                   | Some _ \<Rightarrow>
                       (let (supportedLanguage, w) =
                              getSupportLanguage langs (ToLower uni langString) w
                        in (s @ ''<ac:parameter ac:name="language">'' @ supportedLanguage
                              @ ''</ac:parameter>'', w)));
                s = s @ ''<ac:plain-text-body><![CDATA[ '';
                w = WriteString s w
            in Inr (writeLines r w n, WalkContinue))
         else
           (let s = '' ]]></ac:plain-text-body></ac:structured-macro>''
            in Inr (WriteString s w, WalkContinue)))\<close>

section \<open>The macro grammar as the specification words it\<close>

text \<open>
  The specification describes \<open>writeMacro\<close> as a classifier of lines followed by an
  emitter. These definitions follow its section 4.3, to be compared with \<open>macroLine\<close>
  and \<open>writeMacro\<close> above: a line is an attribute, a parameter or a content section;
  the macro is the opening tag with the attributes of all lines, then the parameters and
  content sections of all lines in line order, then the closing tag. Where the key of a
  line with a colon is empty there is no first character to compare, and the line has no
  class (\<open>None\<close>).
\<close>

datatype element =
  Attribute string string | Parameter string string | ContentSection string string

definition spec_classify :: "string set \<Rightarrow> string \<Rightarrow> element option" where
  "spec_classify contentKeys line =
     (case IndexByte line (CHR '':'') of
        None \<Rightarrow> Some (Parameter [] (TrimSpace line))
      | Some m \<Rightarrow>
          (let left = take m line;
               key = TrimSpace left;
               value = TrimSpace (drop (m + 1) line)
           in if key = [] then None
              else if hd key = hd left then
                if key \<in> contentKeys then Some (ContentSection key value)
                else Some (Attribute key value)
              else Some (Parameter key value)))"

fun spec_attribute :: "element \<Rightarrow> string" where
  \<open>spec_attribute (Attribute k v) = '' ac:'' @ k @ ''="'' @ v @ ''"''\<close>
| \<open>spec_attribute (Parameter k v) = []\<close>
| \<open>spec_attribute (ContentSection k v) = []\<close>

fun spec_body :: "element \<Rightarrow> string" where
  \<open>spec_body (Attribute k v) = []\<close>
| \<open>spec_body (Parameter k v) = ''<ac:parameter ac:name="'' @ k @ ''">'' @ v @ ''</ac:parameter>''\<close>
| \<open>spec_body (ContentSection k v) = ''<ac:'' @ k @ ''>'' @ v @ ''</ac:'' @ k @ ''>''\<close>

definition spec_macro :: "element list \<Rightarrow> string" where
  "spec_macro es =
     ''<ac:structured-macro'' @ concat (map spec_attribute es) @ ''>''
       @ concat (map spec_body es) @ ''</ac:structured-macro>''"

section \<open>Facts about the string functions\<close>

lemma IndexByte_None: "IndexByte s c = None \<longleftrightarrow> c \<notin> set s"
  by (induction s) auto

lemma IndexByte_first: "c \<notin> set left \<Longrightarrow> IndexByte (left @ c # right) c = Some (length left)"
  by (induction left) auto

lemma IndexByte_Some:
  "IndexByte s c = Some m \<Longrightarrow> s = take m s @ c # drop (m + 1) s \<and> c \<notin> set (take m s)"
  by (induction s arbitrary: m) (auto split: if_splits)

lemma SplitN_2:
  "SplitN s c 2 =
     (case IndexByte s c of None \<Rightarrow> [s] | Some m \<Rightarrow> [take m s, drop (m + 1) s])"
  by (simp add: numeral_2_eq_2 split: option.split)

lemma SplitN_no_sep: "c \<notin> set s \<Longrightarrow> SplitN s c 2 = [s]"
  by (simp add: SplitN_2 IndexByte_None[THEN iffD2])

lemma SplitN_sep: "c \<notin> set left \<Longrightarrow> SplitN (left @ c # right) c 2 = [left, right]"
  by (simp add: SplitN_2 IndexByte_first)

lemma TrimLeftSpace_step:
  "leadingSpace s = Some n \<Longrightarrow> 0 < n \<Longrightarrow> n \<le> length s \<Longrightarrow>
   TrimLeftSpace s = TrimLeftSpace (drop n s)"
  by (subst TrimLeftSpace.simps) simp

lemma TrimLeftSpace_stop:
  "leadingSpace s = None \<or> (\<exists>n. leadingSpace s = Some n \<and> \<not> (0 < n \<and> n \<le> length s)) \<Longrightarrow>
   TrimLeftSpace s = s"
  by (subst TrimLeftSpace.simps) auto

lemma TrimRightSpace_step:
  "trailingSpace s = Some n \<Longrightarrow> 0 < n \<Longrightarrow> n \<le> length s \<Longrightarrow>
   TrimRightSpace s = TrimRightSpace (take (length s - n) s)"
  by (subst TrimRightSpace.simps) simp

lemma TrimRightSpace_stop:
  "trailingSpace s = None \<or> (\<exists>n. trailingSpace s = Some n \<and> \<not> (0 < n \<and> n \<le> length s)) \<Longrightarrow>
   TrimRightSpace s = s"
  by (subst TrimRightSpace.simps) auto

lemma TrimLeftSpace_slice: "\<exists>a. s = a @ TrimLeftSpace s"
proof (induction s rule: TrimLeftSpace.induct)
  case (1 s)
  show ?case
  proof (cases "\<exists>n. leadingSpace s = Some n \<and> 0 < n \<and> n \<le> length s")
    case True
    then obtain n where n: "leadingSpace s = Some n" "0 < n \<and> n \<le> length s" by blast
    from 1[OF n] obtain a where "drop n s = a @ TrimLeftSpace (drop n s)" by blast
    then have "s = (take n s @ a) @ TrimLeftSpace (drop n s)"
      by (metis append.assoc append_take_drop_id)
    then have "s = (take n s @ a) @ TrimLeftSpace s"
      using n by (simp add: TrimLeftSpace_step)
    then show ?thesis by blast
  next
    case False
    then have "TrimLeftSpace s = s"
      by (intro TrimLeftSpace_stop) (cases "leadingSpace s", auto)
    then show ?thesis by simp
  qed
qed

lemma TrimRightSpace_slice: "\<exists>b. s = TrimRightSpace s @ b"
proof (induction s rule: TrimRightSpace.induct)
  case (1 s)
  show ?case
  proof (cases "\<exists>n. trailingSpace s = Some n \<and> 0 < n \<and> n \<le> length s")
    case True
    then obtain n where n: "trailingSpace s = Some n" "0 < n \<and> n \<le> length s" by blast
    from 1[OF n] obtain b where
      "take (length s - n) s = TrimRightSpace (take (length s - n) s) @ b" by blast
    then have "s = TrimRightSpace (take (length s - n) s) @ (b @ drop (length s - n) s)"
      by (metis append.assoc append_take_drop_id)
    then have "s = TrimRightSpace s @ (b @ drop (length s - n) s)"
      using n by (simp add: TrimRightSpace_step)
    then show ?thesis by blast
  next
    case False
    then have "TrimRightSpace s = s"
      by (intro TrimRightSpace_stop) (cases "trailingSpace s", auto)
    then show ?thesis by simp
  qed
qed

lemma TrimSpace_slice: "\<exists>a b. s = a @ TrimSpace s @ b"
proof -
  obtain a where a: "s = a @ TrimLeftSpace s" using TrimLeftSpace_slice by blast
  obtain b where b: "TrimLeftSpace s = TrimRightSpace (TrimLeftSpace s) @ b"
    using TrimRightSpace_slice by blast
  from a b have "s = a @ TrimSpace s @ b" by (simp add: TrimSpace_def)
  then show ?thesis by blast
qed

lemma TrimSpace_sublist: "sublist (TrimSpace s) s"
  using TrimSpace_slice[of s] by (auto simp: sublist_def)

lemma TrimSpace_nonempty: "TrimSpace s \<noteq> [] \<Longrightarrow> s \<noteq> []"
  using TrimSpace_slice[of s] by auto

section \<open>One line of a macro declaration\<close>

lemma TrimSpace_Nil: "TrimSpace [] = []"
  using TrimSpace_slice[of "[]"] by simp

lemma macroLine_no_colon:
  \<open>CHR '':'' \<notin> set text \<Longrightarrow>
   macroLine r text (ms, ps) =
     Inr (ms, ps @ ''<ac:parameter ac:name="">'' @ TrimSpace text @ ''</ac:parameter>'')\<close>
  by (simp add: macroLine_def SplitN_no_sep)

lemma macroLine_colon:
  \<open>CHR '':'' \<notin> set left \<Longrightarrow>
   macroLine r (left @ CHR '':'' # right) (ms, ps) =
     (case TrimSpace left of
        [] \<Rightarrow> Inl IndexOutOfRange
      | k0 # _ \<Rightarrow>
          (case left of
             [] \<Rightarrow> Inl IndexOutOfRange
           | c0 # _ \<Rightarrow>
               if k0 = c0 then
                 if TrimSpace left \<in> MacroContentKeys r
                 then Inr (ms, ps @ ''<ac:'' @ TrimSpace left @ ''>'' @ TrimSpace right
                                @ ''</ac:'' @ TrimSpace left @ ''>'')
                 else Inr (ms @ '' ac:'' @ TrimSpace left @ ''="'' @ TrimSpace right @ ''"'', ps)
               else Inr (ms, ps @ ''<ac:parameter ac:name="'' @ TrimSpace left @ ''">''
                              @ TrimSpace right @ ''</ac:parameter>'')))\<close>
  by (auto simp: macroLine_def SplitN_sep Let_def split: list.splits)

lemma macroLine_empty_key:
  "CHR '':'' \<notin> set left \<Longrightarrow> TrimSpace left = [] \<Longrightarrow>
   macroLine r (left @ CHR '':'' # right) b = Inl IndexOutOfRange"
  by (cases b) (simp add: macroLine_colon)


lemma macroLine_classified:
  assumes "spec_classify (MacroContentKeys r) line = Some e"
  shows "macroLine r line (ms, ps) = Inr (ms @ spec_attribute e, ps @ spec_body e)"
proof (cases "IndexByte line (CHR '':'')")
  case None
  then have "CHR '':'' \<notin> set line" by (simp add: IndexByte_None)
  moreover from None assms have "e = Parameter [] (TrimSpace line)"
    by (simp add: spec_classify_def)
  ultimately show ?thesis by (simp add: macroLine_no_colon)
next
  case (Some m)
  define left where "left = take m line"
  define right where "right = drop (Suc m) line"
  from IndexByte_Some[OF Some] have line: "line = left @ CHR '':'' # right"
    and nc: "CHR '':'' \<notin> set left"
    by (simp_all add: left_def right_def)
  from assms Some have key: "TrimSpace left \<noteq> []"
    by (auto simp: spec_classify_def Let_def left_def split: if_splits)
  then obtain k0 ks where k: "TrimSpace left = k0 # ks" by (cases "TrimSpace left") auto
  from key have "left \<noteq> []" using TrimSpace_nonempty by blast
  then obtain c0 cs where l: "left = c0 # cs" by (cases left) auto
  from assms Some have e: "e = (if k0 = c0 then
        if TrimSpace left \<in> MacroContentKeys r then ContentSection (TrimSpace left) (TrimSpace right)
        else Attribute (TrimSpace left) (TrimSpace right)
      else Parameter (TrimSpace left) (TrimSpace right))"
    using k l by (auto simp: spec_classify_def Let_def left_def[symmetric] right_def[symmetric] split: if_splits)
  have "macroLine r (left @ CHR '':'' # right) (ms, ps) = Inr (ms @ spec_attribute e, ps @ spec_body e)"
    unfolding macroLine_colon[OF nc] e using k l by auto
  then show ?thesis by (simp add: line)
qed

lemma macroLine_unclassified:
  assumes "spec_classify (MacroContentKeys r) line = None"
  shows "macroLine r line b = Inl IndexOutOfRange"
proof (cases "IndexByte line (CHR '':'')")
  case None
  with assms show ?thesis by (simp add: spec_classify_def)
next
  case (Some m)
  from IndexByte_Some[OF Some] have line: "line = take m line @ CHR '':'' # drop (m + 1) line"
    and nc: "CHR '':'' \<notin> set (take m line)" by simp_all
  from assms Some have "TrimSpace (take m line) = []"
    by (auto simp: spec_classify_def Let_def split: if_splits)
  from macroLine_empty_key[OF nc this] line show ?thesis by metis
qed

lemma macroLoop_classified:
  "map (spec_classify (MacroContentKeys r)) lines = map Some es \<Longrightarrow>
   macroLoop r lines (ms, ps) =
     Inr (ms @ concat (map spec_attribute es), ps @ concat (map spec_body es))"
proof (induction lines arbitrary: es ms ps)
  case Nil
  then show ?case by simp
next
  case (Cons line lines)
  then obtain e es' where es: "es = e # es'"
    and e: "spec_classify (MacroContentKeys r) line = Some e"
    and rest: "map (spec_classify (MacroContentKeys r)) lines = map Some es'"
    by (cases es) auto
  show ?case
    by (simp add: es macroLine_classified[OF e] Cons.IH[OF rest])
qed


section \<open>The two visits of a block\<close>

lemma writeLines_buf: "writeLines r w n = w\<lparr>buf := buf w @ concat (Lines n)\<rparr>"
proof -
  have "foldl (\<lambda>w line. WriteString line w) w ls = w\<lparr>buf := buf w @ concat ls\<rparr>" for ls
    by (induction ls arbitrary: w) (simp_all add: WriteString_def)
  then show ?thesis by (simp add: writeLines_def)
qed

lemma macroLine_appends:
  assumes "macroLine r text (ms, ps) = Inr (ms', ps')"
  shows "\<exists>a b. ms' = ms @ a \<and> ps' = ps @ b"
proof (cases "spec_classify (MacroContentKeys r) text")
  case None
  from macroLine_unclassified[OF None] assms show ?thesis by simp
next
  case (Some e)
  from macroLine_classified[OF Some, of ms ps] assms show ?thesis by auto
qed

lemma macroLoop_appends:
  "macroLoop r lines (ms, ps) = Inr (ms', ps') \<Longrightarrow> \<exists>a b. ms' = ms @ a \<and> ps' = ps @ b"
proof (induction lines arbitrary: ms ps)
  case Nil
  then show ?case by simp
next
  case (Cons line lines)
  from Cons.prems obtain ms1 ps1 where
    step: "macroLine r line (ms, ps) = Inr (ms1, ps1)"
    and rest: "macroLoop r lines (ms1, ps1) = Inr (ms', ps')"
    by (auto split: sum.splits)
  from macroLine_appends[OF step] obtain a b where "ms1 = ms @ a" "ps1 = ps @ b" by blast
  moreover from Cons.IH[OF rest] obtain a' b' where "ms' = ms1 @ a'" "ps' = ps1 @ b'" by blast
  ultimately show ?case by simp
qed

lemma writeMacro_whole:
  assumes "writeMacro r w n = Inr w'"
  shows "\<exists>attrs body. w' = w\<lparr>buf := buf w @ ''<ac:structured-macro'' @ attrs @ ''>'' @ body
                                   @ ''</ac:structured-macro>''\<rparr>"
proof -
  from assms obtain ms ps where
    loop: "macroLoop r (Lines n) (''<ac:structured-macro'', '''') = Inr (ms, ps)"
    and w': "w' = WriteString ''</ac:structured-macro>'' (WriteString ps (WriteString ''>''
                    (WriteString ms w)))"
    by (auto simp: writeMacro_def split: sum.splits)
  from macroLoop_appends[OF loop] obtain a b where "ms = ''<ac:structured-macro'' @ a" "ps = b"
    by auto
  then show ?thesis using w' by (auto simp: WriteString_def)
qed

lemma getSupportLanguage_buf: "buf (snd (getSupportLanguage langs key w)) = buf w"
  by (simp add: getSupportLanguage_def println_def split: option.splits)

lemma plain_langString:
  assumes \<open>Language n \<noteq> Some ''CONFLUENCE-MACRO''\<close>
  shows "(case Language n of None \<Rightarrow> [] | Some l \<Rightarrow> l) \<noteq> LanguageStringConfluenceMacro"
  using assms by (auto simp: LanguageStringConfluenceMacro_def split: option.splits)

lemma render_plain_entering:
  assumes \<open>Language n \<noteq> Some ''CONFLUENCE-MACRO''\<close>
  shows \<open>renderConfluenceFencedCode r langs uni w n True =
     (case Language n of
        None \<Rightarrow>
          Inr (w\<lparr>buf := buf w
                  @ ''<ac:structured-macro ac:name="code" ac:schema-version="1">''
                  @ ''<ac:parameter ac:name="theme">Confluence</ac:parameter>''
                  @ ''<ac:parameter ac:name="linenumbers">true</ac:parameter>''
                  @ ''<ac:plain-text-body><![CDATA[ ''
                  @ concat (Lines n)\<rparr>, WalkContinue)
      | Some tag \<Rightarrow>
          Inr ((snd (getSupportLanguage langs (ToLower uni tag) w))\<lparr>buf := buf w
                  @ ''<ac:structured-macro ac:name="code" ac:schema-version="1">''
                  @ ''<ac:parameter ac:name="theme">Confluence</ac:parameter>''
                  @ ''<ac:parameter ac:name="linenumbers">true</ac:parameter>''
                  @ ''<ac:parameter ac:name="language">''
                  @ fst (getSupportLanguage langs (ToLower uni tag) w)
                  @ ''</ac:parameter>''
                  @ ''<ac:plain-text-body><![CDATA[ ''
                  @ concat (Lines n)\<rparr>, WalkContinue))\<close>
proof (cases "Language n")
  case None
  then show ?thesis using plain_langString[OF assms]
    by (simp add: renderConfluenceFencedCode_def Let_def writeLines_buf WriteString_def)
next
  case (Some tag)
  obtain v w1 where g: "getSupportLanguage langs (ToLower uni tag) w = (v, w1)"
    by (cases "getSupportLanguage langs (ToLower uni tag) w") auto
  with getSupportLanguage_buf[of langs "ToLower uni tag" w] have "buf w1 = buf w" by simp
  then show ?thesis using plain_langString[OF assms] Some g
    by (simp add: renderConfluenceFencedCode_def Let_def writeLines_buf WriteString_def)
qed

lemma render_plain_leaving:
  assumes \<open>Language n \<noteq> Some ''CONFLUENCE-MACRO''\<close>
  shows \<open>renderConfluenceFencedCode r langs uni w n False
           = Inr (w\<lparr>buf := buf w @ '' ]]></ac:plain-text-body></ac:structured-macro>''\<rparr>,
                  WalkContinue)\<close>
  using plain_langString[OF assms]
  by (simp add: renderConfluenceFencedCode_def Let_def WriteString_def)

section \<open>Building the alias table\<close>

lemma assertString_Inr: "assertString x = Inr s \<longleftrightarrow> x = Some (JString s)"
  by (auto simp: assertString_def split: option.splits json.splits)

lemma assertSlice_Inr: "assertSlice x = Inr xs \<longleftrightarrow> x = Some (JArray xs)"
  by (auto simp: assertSlice_def split: option.splits json.splits)

lemma aliasLoop_result:
  "aliasLoop as name m = Inr m' \<Longrightarrow> m' k = (if JString k \<in> set as then Some name else m k)"
proof (induction as arbitrary: m)
  case Nil
  then show ?case by simp
next
  case (Cons a as)
  from Cons.prems obtain s where a: "a = JString s"
    and rest: "aliasLoop as name (m(s \<mapsto> name)) = Inr m'"
    by (auto simp: assertString_Inr split: sum.splits)
  from Cons.IH[OF rest] show ?case by (auto simp: a)
qed

lemma objLoop_result:
  assumes "objLoop objs m = Inr m'"
    and "\<forall>obj \<in> set objs. \<forall>c' as'. obj ''name'' = Some (JString c') \<longrightarrow>
           obj ''aliases'' = Some (JArray as') \<longrightarrow> JString a \<in> set as' \<longrightarrow> c' = c"
    and "m a = Some c \<or> (\<exists>obj \<in> set objs. \<exists>as. obj ''name'' = Some (JString c) \<and>
           obj ''aliases'' = Some (JArray as) \<and> JString a \<in> set as)"
  shows "m' a = Some c"
  using assms
proof (induction objs arbitrary: m)
  case Nil
  then show ?case by simp
next
  case (Cons obj objs)
  from Cons.prems(1) obtain name aliases m1 where
    name: "obj ''name'' = Some (JString name)"
    and aliases: "obj ''aliases'' = Some (JArray aliases)"
    and inner: "aliasLoop aliases name m = Inr m1"
    and rest: "objLoop objs m1 = Inr m'"
    by (auto simp: assertString_Inr assertSlice_Inr split: sum.splits)
  have m1: "m1 a = (if JString a \<in> set aliases then Some name else m a)"
    by (rule aliasLoop_result[OF inner])
  have same: "JString a \<in> set aliases \<Longrightarrow> name = c"
    using Cons.prems(2) name aliases by auto
  have uniq: "\<forall>obj \<in> set objs. \<forall>c' as'. obj ''name'' = Some (JString c') \<longrightarrow>
           obj ''aliases'' = Some (JArray as') \<longrightarrow> JString a \<in> set as' \<longrightarrow> c' = c"
    using Cons.prems(2) by auto
  have "m1 a = Some c \<or> (\<exists>obj \<in> set objs. \<exists>as. obj ''name'' = Some (JString c) \<and>
           obj ''aliases'' = Some (JArray as) \<and> JString a \<in> set as)"
    using Cons.prems(3) m1 same name aliases by auto
  from Cons.IH[OF rest uniq this] show ?case .
qed

section \<open>The claims\<close>

text \<open>
  C1. The specification says that no line of a macro declaration can make the classifier
  fail. The code reads \<open>key[0]\<close> without checking that the trimmed key is non-empty, so
  a line that starts with a colon stops the renderer with an index-out-of-range panic:
  this is the code evaluated at the block whose only line is \<open>: value\<close>.
\<close>

theorem writeMacro_colon_first_panics:
  "renderConfluenceFencedCode r langs uni w
     \<lparr>Language = Some ''CONFLUENCE-MACRO'', Lines = ['': value\<newline>'']\<rparr> True
   = Inl IndexOutOfRange"
proof -
  have "macroLine r ([] @ CHR '':'' # '' value\<newline>'') (''<ac:structured-macro'', '''')
          = Inl IndexOutOfRange"
    by (rule macroLine_empty_key) (simp_all add: TrimSpace_Nil)
  then show ?thesis
    by (simp add: renderConfluenceFencedCode_def LanguageStringConfluenceMacro_def writeMacro_def)
qed


text \<open>
  C2. A line with a colon, whose key (the trimmed text before the first colon) has a
  first character: when that character is the first character of the untrimmed left part
  and the key is \<open>plain-text-body\<close> or \<open>rich-text-body\<close>, the line appends the element
  \<open><ac:key>value</ac:key>\<close>; when it is and the key is any other, the attribute
  \<open> ac:key="value"\<close> is appended to the opening tag; when the key was indented, the line
  appends \<open><ac:parameter ac:name="key">value</ac:parameter>\<close>, whatever the key is.
\<close>

theorem macroLine_key_value:
  assumes \<open>CHR '':'' \<notin> set left\<close>
    and \<open>key = TrimSpace left\<close> and \<open>value = TrimSpace right\<close>
    and \<open>key \<noteq> []\<close>
  shows \<open>(hd key = hd left \<and> key \<in> {''plain-text-body'', ''rich-text-body''} \<longrightarrow>
            macroLine NewConfluenceFencedCodeBlockHTMLRender (left @ CHR '':'' # right) (ms, ps)
              = Inr (ms, ps @ ''<ac:'' @ key @ ''>'' @ value @ ''</ac:'' @ key @ ''>''))
       \<and> (hd key = hd left \<and> key \<notin> {''plain-text-body'', ''rich-text-body''} \<longrightarrow>
            macroLine NewConfluenceFencedCodeBlockHTMLRender (left @ CHR '':'' # right) (ms, ps)
              = Inr (ms @ '' ac:'' @ key @ ''="'' @ value @ ''"'', ps))
       \<and> (hd key \<noteq> hd left \<longrightarrow>
            macroLine NewConfluenceFencedCodeBlockHTMLRender (left @ CHR '':'' # right) (ms, ps)
              = Inr (ms, ps @ ''<ac:parameter ac:name="'' @ key @ ''">'' @ value
                           @ ''</ac:parameter>''))\<close>
proof -
  from assms(2,4) have "left \<noteq> []" using TrimSpace_nonempty by blast
  then obtain c0 cs where left: "left = c0 # cs" by (cases left) auto
  from assms(4) obtain k0 ks where key: "key = k0 # ks" by (cases key) auto
  have keys: "MacroContentKeys NewConfluenceFencedCodeBlockHTMLRender
                = {''plain-text-body'', ''rich-text-body''}"
    by (simp add: NewConfluenceFencedCodeBlockHTMLRender_def MacroContentKeyPlainTextBody_def
        MacroContentKeyRichTextBody_def)
  have split: "TrimSpace left = k0 # ks" using assms(2) key by simp
  show ?thesis
    unfolding macroLine_colon[OF assms(1)] keys
    unfolding split assms(3) key
    by (simp add: left)
qed

theorem macroLine_key_value_witness:
  \<open>macroLine NewConfluenceFencedCodeBlockHTMLRender ''plain-text-body: hello\<newline>'' ([], [])
     = Inr ([], ''<ac:plain-text-body>hello</ac:plain-text-body>'')
   \<and> macroLine NewConfluenceFencedCodeBlockHTMLRender ''status: green\<newline>'' ([], [])
     = Inr ('' ac:status="green"'', [])
   \<and> macroLine NewConfluenceFencedCodeBlockHTMLRender ''  plain-text-body: hello\<newline>'' ([], [])
     = Inr ([], ''<ac:parameter ac:name="plain-text-body">hello</ac:parameter>'')\<close>
proof -
  have t1: "TrimSpace ''plain-text-body'' = ''plain-text-body''" by code_simp
  have t2: "TrimSpace '' hello\<newline>'' = ''hello''" by code_simp
  have t3: "TrimSpace ''status'' = ''status''" by code_simp
  have t4: "TrimSpace '' green\<newline>'' = ''green''" by code_simp
  have t5: "TrimSpace ''  plain-text-body'' = ''plain-text-body''" by code_simp
  note a = macroLine_key_value[of "''plain-text-body''" "''plain-text-body''" "''hello''"
      "'' hello\<newline>''" "[]" "[]"]
  note b = macroLine_key_value[of "''status''" "''status''" "''green''"
      "'' green\<newline>''" "[]" "[]"]
  note c = macroLine_key_value[of "''  plain-text-body''" "''plain-text-body''" "''hello''"
      "'' hello\<newline>''" "[]" "[]"]
  show ?thesis using a b c by (simp add: t1 t2 t3 t4 t5)
qed

text \<open>
  C3. A block whose language is exactly \<open>CONFLUENCE-MACRO\<close> is handed to \<open>writeMacro\<close>
  on the entering visit, whose output (when it returns) is one whole macro from
  \<open><ac:structured-macro\<close> to \<open></ac:structured-macro>\<close>, and the leaving visit writes
  nothing. Any other language, and no language, takes the plain-code path: the entering
  visit opens a \<open>code\<close> macro and the leaving visit closes it.
\<close>

theorem render_dispatch:
  \<open>(Language n = Some ''CONFLUENCE-MACRO'' \<longrightarrow>
      renderConfluenceFencedCode r langs uni w n True
        = (case writeMacro r w n of Inl e \<Rightarrow> Inl e | Inr w' \<Rightarrow> Inr (w', WalkContinue))
      \<and> (\<forall>w'. writeMacro r w n = Inr w' \<longrightarrow>
            (\<exists>attrs body. buf w' = buf w @ ''<ac:structured-macro'' @ attrs @ ''>'' @ body
                                      @ ''</ac:structured-macro>''))
      \<and> renderConfluenceFencedCode r langs uni w n False = Inr (w, WalkContinue))
   \<and> (Language n \<noteq> Some ''CONFLUENCE-MACRO'' \<longrightarrow>
        (\<exists>w' rest. renderConfluenceFencedCode r langs uni w n True = Inr (w', WalkContinue)
            \<and> buf w' = buf w @ ''<ac:structured-macro ac:name="code" ac:schema-version="1">'' @ rest)
      \<and> renderConfluenceFencedCode r langs uni w n False
          = Inr (w\<lparr>buf := buf w @ '' ]]></ac:plain-text-body></ac:structured-macro>''\<rparr>,
                 WalkContinue))\<close>
proof (intro conjI impI allI)
  assume l: "Language n = Some ''CONFLUENCE-MACRO''"
  show "renderConfluenceFencedCode r langs uni w n True
        = (case writeMacro r w n of Inl e \<Rightarrow> Inl e | Inr w' \<Rightarrow> Inr (w', WalkContinue))"
    by (simp add: renderConfluenceFencedCode_def l LanguageStringConfluenceMacro_def)
  show "renderConfluenceFencedCode r langs uni w n False = Inr (w, WalkContinue)"
    by (simp add: renderConfluenceFencedCode_def l LanguageStringConfluenceMacro_def)
next
  fix w' assume "writeMacro r w n = Inr w'"
  from writeMacro_whole[OF this] obtain attrs body where
    \<open>w' = w\<lparr>buf := buf w @ ''<ac:structured-macro'' @ attrs @ ''>'' @ body
                          @ ''</ac:structured-macro>''\<rparr>\<close>
    by blast
  then have \<open>buf w' = buf w @ ''<ac:structured-macro'' @ attrs @ ''>'' @ body
                      @ ''</ac:structured-macro>''\<close>
    by simp
  then show \<open>\<exists>attrs body. buf w' = buf w @ ''<ac:structured-macro'' @ attrs @ ''>'' @ body
                                      @ ''</ac:structured-macro>''\<close>
    by blast
next
  assume l: "Language n \<noteq> Some ''CONFLUENCE-MACRO''"
  show \<open>\<exists>w' rest. renderConfluenceFencedCode r langs uni w n True = Inr (w', WalkContinue)
            \<and> buf w' = buf w @ ''<ac:structured-macro ac:name="code" ac:schema-version="1">'' @ rest\<close>
    unfolding render_plain_entering[OF l]
    by (cases "Language n") (auto simp del: append_assoc)
  show \<open>renderConfluenceFencedCode r langs uni w n False
          = Inr (w\<lparr>buf := buf w @ '' ]]></ac:plain-text-body></ac:structured-macro>''\<rparr>,
                 WalkContinue)\<close>
    by (rule render_plain_leaving[OF l])
qed

theorem render_dispatch_witness:
  \<open>renderConfluenceFencedCode NewConfluenceFencedCodeBlockHTMLRender None id \<lparr>buf = [], stderr = []\<rparr>
      \<lparr>Language = Some ''CONFLUENCE-MACRO'', Lines = [''status: green\<newline>'']\<rparr> True
     = Inr (\<lparr>buf = ''<ac:structured-macro ac:status="green"></ac:structured-macro>'', stderr = []\<rparr>,
            WalkContinue)
   \<and> renderConfluenceFencedCode NewConfluenceFencedCodeBlockHTMLRender None id \<lparr>buf = [], stderr = []\<rparr>
      \<lparr>Language = Some ''CONFLUENCE-MACRO'', Lines = [''status: green\<newline>'']\<rparr> False
     = Inr (\<lparr>buf = [], stderr = []\<rparr>, WalkContinue)
   \<and> renderConfluenceFencedCode NewConfluenceFencedCodeBlockHTMLRender None id \<lparr>buf = [], stderr = []\<rparr>
      \<lparr>Language = Some ''confluence-macro'', Lines = [''status: green\<newline>'']\<rparr> False
     = Inr (\<lparr>buf = '' ]]></ac:plain-text-body></ac:structured-macro>'', stderr = []\<rparr>, WalkContinue)
   \<and> renderConfluenceFencedCode NewConfluenceFencedCodeBlockHTMLRender None id \<lparr>buf = [], stderr = []\<rparr>
      \<lparr>Language = None, Lines = [''status: green\<newline>'']\<rparr> False
     = Inr (\<lparr>buf = '' ]]></ac:plain-text-body></ac:structured-macro>'', stderr = []\<rparr>, WalkContinue)\<close>
proof -
  have wm: \<open>writeMacro NewConfluenceFencedCodeBlockHTMLRender \<lparr>buf = [], stderr = []\<rparr>
              \<lparr>Language = Some ''CONFLUENCE-MACRO'', Lines = [''status: green\<newline>'']\<rparr>
            = Inr \<lparr>buf = ''<ac:structured-macro ac:status="green"></ac:structured-macro>'',
                   stderr = []\<rparr>\<close>
    by code_simp
  note a = render_dispatch[of "\<lparr>Language = Some ''CONFLUENCE-MACRO'', Lines = [''status: green\<newline>'']\<rparr>"
      NewConfluenceFencedCodeBlockHTMLRender None id "\<lparr>buf = [], stderr = []\<rparr>"]
  note b = render_dispatch[of "\<lparr>Language = Some ''confluence-macro'', Lines = [''status: green\<newline>'']\<rparr>"
      NewConfluenceFencedCodeBlockHTMLRender None id "\<lparr>buf = [], stderr = []\<rparr>"]
  note c = render_dispatch[of "\<lparr>Language = None, Lines = [''status: green\<newline>'']\<rparr>"
      NewConfluenceFencedCodeBlockHTMLRender None id "\<lparr>buf = [], stderr = []\<rparr>"]
  show ?thesis using a b c by (simp add: wm)
qed

text \<open>
  C4. For a plain-code block the entering visit writes the opening \<open>code\<close> macro, the
  parameter \<open>theme\<close> = \<open>Confluence\<close>, the parameter \<open>linenumbers\<close> = \<open>true\<close>, then,
  exactly when the block has a language, the parameter \<open>language\<close> whose value is
  \<open>getSupportLanguage\<close> of the lower-cased tag, then the opening of the CDATA body,
  then the lines of the block unchanged; the leaving visit writes the two closing tags.
\<close>

theorem render_plain_code:
  assumes \<open>Language n \<noteq> Some ''CONFLUENCE-MACRO''\<close>
  shows \<open>(\<exists>w'. renderConfluenceFencedCode r langs uni w n True = Inr (w', WalkContinue)
            \<and> buf w' = buf w
                @ ''<ac:structured-macro ac:name="code" ac:schema-version="1">''
                @ ''<ac:parameter ac:name="theme">Confluence</ac:parameter>''
                @ ''<ac:parameter ac:name="linenumbers">true</ac:parameter>''
                @ (case Language n of
                     None \<Rightarrow> []
                   | Some tag \<Rightarrow>
                       ''<ac:parameter ac:name="language">''
                         @ fst (getSupportLanguage langs (ToLower uni tag) w)
                         @ ''</ac:parameter>'')
                @ ''<ac:plain-text-body><![CDATA[ ''
                @ concat (Lines n))
       \<and> renderConfluenceFencedCode r langs uni w n False
           = Inr (w\<lparr>buf := buf w @ '' ]]></ac:plain-text-body></ac:structured-macro>''\<rparr>,
                  WalkContinue)\<close>
proof (intro conjI)
  show \<open>\<exists>w'. renderConfluenceFencedCode r langs uni w n True = Inr (w', WalkContinue)
            \<and> buf w' = buf w
                @ ''<ac:structured-macro ac:name="code" ac:schema-version="1">''
                @ ''<ac:parameter ac:name="theme">Confluence</ac:parameter>''
                @ ''<ac:parameter ac:name="linenumbers">true</ac:parameter>''
                @ (case Language n of
                     None \<Rightarrow> []
                   | Some tag \<Rightarrow>
                       ''<ac:parameter ac:name="language">''
                         @ fst (getSupportLanguage langs (ToLower uni tag) w)
                         @ ''</ac:parameter>'')
                @ ''<ac:plain-text-body><![CDATA[ ''
                @ concat (Lines n)\<close>
    unfolding render_plain_entering[OF assms]
    by (cases "Language n") simp_all
  show \<open>renderConfluenceFencedCode r langs uni w n False
           = Inr (w\<lparr>buf := buf w @ '' ]]></ac:plain-text-body></ac:structured-macro>''\<rparr>,
                  WalkContinue)\<close>
    by (rule render_plain_leaving[OF assms])
qed

theorem render_plain_code_witness:
  \<open>(\<exists>w'. renderConfluenceFencedCode NewConfluenceFencedCodeBlockHTMLRender
            (Some [''python'' \<mapsto> ''py'']) id \<lparr>buf = [], stderr = []\<rparr>
            \<lparr>Language = Some ''Python'', Lines = [''x = 1\<newline>'']\<rparr> True = Inr (w', WalkContinue)
          \<and> buf w' = ''<ac:structured-macro ac:name="code" ac:schema-version="1"><ac:parameter ac:name="theme">Confluence</ac:parameter><ac:parameter ac:name="linenumbers">true</ac:parameter><ac:parameter ac:name="language">py</ac:parameter><ac:plain-text-body><![CDATA[ x = 1\<newline>'')
   \<and> renderConfluenceFencedCode NewConfluenceFencedCodeBlockHTMLRender
            (Some [''python'' \<mapsto> ''py'']) id \<lparr>buf = [], stderr = []\<rparr>
            \<lparr>Language = Some ''Python'', Lines = [''x = 1\<newline>'']\<rparr> False
       = Inr (\<lparr>buf = '' ]]></ac:plain-text-body></ac:structured-macro>'', stderr = []\<rparr>, WalkContinue)
   \<and> (\<exists>w'. renderConfluenceFencedCode NewConfluenceFencedCodeBlockHTMLRender
            (Some [''python'' \<mapsto> ''py'']) id \<lparr>buf = [], stderr = []\<rparr>
            \<lparr>Language = None, Lines = [''x = 1\<newline>'']\<rparr> True = Inr (w', WalkContinue)
          \<and> buf w' = ''<ac:structured-macro ac:name="code" ac:schema-version="1"><ac:parameter ac:name="theme">Confluence</ac:parameter><ac:parameter ac:name="linenumbers">true</ac:parameter><ac:plain-text-body><![CDATA[ x = 1\<newline>'')\<close>
proof -
  have lower: "ToLower id ''Python'' = ''python''" by code_simp
  have look: "getSupportLanguage (Some [''python'' \<mapsto> ''py'']) ''python'' \<lparr>buf = [], stderr = []\<rparr>
                = (''py'', \<lparr>buf = [], stderr = []\<rparr>)"
    by (simp add: getSupportLanguage_def)
  note a = render_plain_code[of "\<lparr>Language = Some ''Python'', Lines = [''x = 1\<newline>'']\<rparr>"
      NewConfluenceFencedCodeBlockHTMLRender "Some [''python'' \<mapsto> ''py'']" id
      "\<lparr>buf = [], stderr = []\<rparr>"]
  note b = render_plain_code[of "\<lparr>Language = None, Lines = [''x = 1\<newline>'']\<rparr>"
      NewConfluenceFencedCodeBlockHTMLRender "Some [''python'' \<mapsto> ''py'']" id
      "\<lparr>buf = [], stderr = []\<rparr>"]
  show ?thesis using a b by (simp add: lower look)
qed

text \<open>
  C5. When every line has a class, \<open>writeMacro\<close> writes exactly the opening tag with
  the attributes, \<open>>\<close>, the parameters and content sections in the order of their lines,
  and the closing tag; a block with no line gives
  \<open><ac:structured-macro></ac:structured-macro>\<close>.
\<close>

theorem writeMacro_line_order:
  "(map (spec_classify (MacroContentKeys r)) (Lines n) = map Some es \<longrightarrow>
      writeMacro r w n = Inr (w\<lparr>buf := buf w @ spec_macro es\<rparr>))
   \<and> (Lines n = [] \<longrightarrow>
      writeMacro r w n = Inr (w\<lparr>buf := buf w @ ''<ac:structured-macro></ac:structured-macro>''\<rparr>))"
  by (auto simp: writeMacro_def macroLoop_classified WriteString_def spec_macro_def)


theorem writeMacro_line_order_witness:
  \<open>writeMacro NewConfluenceFencedCodeBlockHTMLRender \<lparr>buf = ''<p/>'', stderr = []\<rparr>
     \<lparr>Language = Some ''CONFLUENCE-MACRO'',
      Lines = [''plain-text-body: hello\<newline>'', ''status: green\<newline>'',
               ''  title: Build OK\<newline>'', ''just a value\<newline>'']\<rparr>
   = Inr \<lparr>buf = ''<p/><ac:structured-macro ac:status="green"><ac:plain-text-body>hello</ac:plain-text-body><ac:parameter ac:name="title">Build OK</ac:parameter><ac:parameter ac:name="">just a value</ac:parameter></ac:structured-macro>'',
          stderr = []\<rparr>
   \<and> writeMacro NewConfluenceFencedCodeBlockHTMLRender \<lparr>buf = [], stderr = []\<rparr>
        \<lparr>Language = Some ''CONFLUENCE-MACRO'', Lines = []\<rparr>
     = Inr \<lparr>buf = ''<ac:structured-macro></ac:structured-macro>'', stderr = []\<rparr>\<close>
proof -
  have cl: "map (spec_classify (MacroContentKeys NewConfluenceFencedCodeBlockHTMLRender))
              [''plain-text-body: hello\<newline>'', ''status: green\<newline>'',
               ''  title: Build OK\<newline>'', ''just a value\<newline>'']
            = map Some [ContentSection ''plain-text-body'' ''hello'', Attribute ''status'' ''green'',
                 Parameter ''title'' ''Build OK'', Parameter [] ''just a value'']"
    by code_simp
  note a = writeMacro_line_order[of NewConfluenceFencedCodeBlockHTMLRender
      "\<lparr>Language = Some ''CONFLUENCE-MACRO'',
        Lines = [''plain-text-body: hello\<newline>'', ''status: green\<newline>'',
               ''  title: Build OK\<newline>'', ''just a value\<newline>'']\<rparr>"
      "[ContentSection ''plain-text-body'' ''hello'', Attribute ''status'' ''green'',
                 Parameter ''title'' ''Build OK'', Parameter [] ''just a value'']"
      "\<lparr>buf = ''<p/>'', stderr = []\<rparr>"]
  note b = writeMacro_line_order[of NewConfluenceFencedCodeBlockHTMLRender
      "\<lparr>Language = Some ''CONFLUENCE-MACRO'', Lines = []\<rparr>" "[]" "\<lparr>buf = [], stderr = []\<rparr>"]
  show ?thesis using a b cl by (simp add: spec_macro_def)
qed

text \<open>
  C6. A line with no colon (empty or not) appends a parameter with the empty name, whose
  value is the whole line trimmed; a block of that one line is the macro holding just
  that parameter.
\<close>

theorem macroLine_without_colon:
  \<open>CHR '':'' \<notin> set text \<Longrightarrow>
   macroLine r text (ms, ps) =
     Inr (ms, ps @ ''<ac:parameter ac:name="">'' @ TrimSpace text @ ''</ac:parameter>'')
   \<and> writeMacro r w \<lparr>Language = l, Lines = [text]\<rparr> =
     Inr (w\<lparr>buf := buf w @ ''<ac:structured-macro>'' @ ''<ac:parameter ac:name="">''
                   @ TrimSpace text @ ''</ac:parameter>'' @ ''</ac:structured-macro>''\<rparr>)\<close>
  by (simp add: macroLine_no_colon writeMacro_def WriteString_def)

theorem macroLine_without_colon_witness:
  \<open>macroLine NewConfluenceFencedCodeBlockHTMLRender ''just a value\<newline>'' ([], [])
     = Inr ([], ''<ac:parameter ac:name="">just a value</ac:parameter>'')
   \<and> writeMacro NewConfluenceFencedCodeBlockHTMLRender \<lparr>buf = [], stderr = []\<rparr>
        \<lparr>Language = Some ''CONFLUENCE-MACRO'', Lines = [''just a value\<newline>'']\<rparr>
     = Inr \<lparr>buf = ''<ac:structured-macro><ac:parameter ac:name="">just a value</ac:parameter></ac:structured-macro>'',
            stderr = []\<rparr>\<close>
proof -
  have t: "TrimSpace ''just a value\<newline>'' = ''just a value''" by code_simp
  note a = macroLine_without_colon[of "''just a value\<newline>''" NewConfluenceFencedCodeBlockHTMLRender
      "[]" "[]" "\<lparr>buf = [], stderr = []\<rparr>" "Some ''CONFLUENCE-MACRO''"]
  show ?thesis using a by (simp add: t)
qed

text \<open>
  C7. \<open>getSupportLanguage\<close> has a value for every table and every key, in three cases:
  with no table (\<open>nil\<close>) it returns the key unchanged; with a table that holds the key it
  returns the mapped name; with a table that does not hold the key it returns \<open>plain\<close>
  and prints a diagnostic. When reading the dataset fails, or parsing it fails,
  \<open>loadSupportCodeLanguage\<close> prints a diagnostic and gives no table, so that every later
  lookup is of the first case.
\<close>

theorem getSupportLanguage_three_way:
  "getSupportLanguage None key w = (key, w)
   \<and> (m key = Some v \<longrightarrow> getSupportLanguage (Some m) key w = (v, w))
   \<and> (m key = None \<longrightarrow>
        getSupportLanguage (Some m) key w
          = (''plain'', println (''Unsupported code block language: '' @ key @ '',Use plain default'') w))
   \<and> (ReadFile f = Inl err \<longrightarrow>
        loadSupportCodeLanguage ReadFile Unmarshal f w
          = Inr (None, println (''error reading file: '' @ err) w))
   \<and> (ReadFile f = Inr jsonData \<and> Unmarshal jsonData = Inl err \<longrightarrow>
        loadSupportCodeLanguage ReadFile Unmarshal f w
          = Inr (None, println (''error parsing JSON data: '' @ err) w))"
  by (simp add: getSupportLanguage_def loadSupportCodeLanguage_def DefaultCodeBlockLanguage_def)

theorem getSupportLanguage_three_way_witness:
  "getSupportLanguage (Some [''golang'' \<mapsto> ''go'']) ''golang'' \<lparr>buf = [], stderr = []\<rparr>
     = (''go'', \<lparr>buf = [], stderr = []\<rparr>)
   \<and> getSupportLanguage (Some [''golang'' \<mapsto> ''go'']) ''cobol'' \<lparr>buf = [], stderr = []\<rparr>
     = (''plain'', \<lparr>buf = [], stderr = [''Unsupported code block language: cobol,Use plain default'']\<rparr>)
   \<and> loadSupportCodeLanguage (\<lambda>f. Inl ''file does not exist'') (\<lambda>d. Inr [])
        ''supported_code_language.json'' \<lparr>buf = [], stderr = []\<rparr>
     = Inr (None, \<lparr>buf = [], stderr = [''error reading file: file does not exist'']\<rparr>)
   \<and> loadSupportCodeLanguage (\<lambda>f. Inr ''[{'') (\<lambda>d. Inl ''unexpected end of JSON input'')
        ''supported_code_language.json'' \<lparr>buf = [], stderr = []\<rparr>
     = Inr (None, \<lparr>buf = [], stderr = [''error parsing JSON data: unexpected end of JSON input'']\<rparr>)"
proof -
  note a = getSupportLanguage_three_way[where key = "''golang''"
      and w = "\<lparr>buf = [], stderr = []\<rparr>" and m = "[''golang'' \<mapsto> ''go'']" and v = "''go''"]
  note b = getSupportLanguage_three_way[where key = "''cobol''"
      and w = "\<lparr>buf = [], stderr = []\<rparr>" and m = "[''golang'' \<mapsto> ''go'']"]
  note c = getSupportLanguage_three_way[where w = "\<lparr>buf = [], stderr = []\<rparr>"
      and ReadFile = "\<lambda>f. Inl ''file does not exist''" and f = "''supported_code_language.json''"
      and err = "''file does not exist''" and Unmarshal = "\<lambda>d. Inr []"]
  note d = getSupportLanguage_three_way[where w = "\<lparr>buf = [], stderr = []\<rparr>"
      and ReadFile = "\<lambda>f. Inr ''[{''" and f = "''supported_code_language.json''"
      and err = "''unexpected end of JSON input''" and jsonData = "''[{''"
      and Unmarshal = "\<lambda>d. Inl ''unexpected end of JSON input''"]
  show ?thesis using a b c d by (simp add: println_def)
qed

text \<open>
  C8, as amended. The tag is lower-cased when it is looked up (by the renderer, before it
  calls \<open>getSupportLanguage\<close>), but the table is built with each alias as the dataset
  writes it. So, when the dataset loads: for every entry that lists the alias \<open>a\<close> under
  the name \<open>c\<close>, where \<open>a\<close> is written in lower case and no entry lists \<open>a\<close> under
  another name, looking up \<open>a\<close> in any letter case (any tag with the lower-case form of
  \<open>a\<close>) gives \<open>c\<close>.
\<close>

theorem alias_lookup_lowercase:
  assumes "loadSupportCodeLanguage ReadFile Unmarshal f w0 = Inr (langs, w1)"
    and "ReadFile f = Inr jsonData" and "Unmarshal jsonData = Inr result"
    and "obj \<in> set result"
    and "obj ''name'' = Some (JString c)" and "obj ''aliases'' = Some (JArray aliases)"
    and "JString a \<in> set aliases"
    and "\<forall>obj' \<in> set result. \<forall>c' as'. obj' ''name'' = Some (JString c') \<longrightarrow>
           obj' ''aliases'' = Some (JArray as') \<longrightarrow> JString a \<in> set as' \<longrightarrow> c' = c"
    and "ToLower uni a = a"
    and "ToLower uni tag = ToLower uni a"
  shows "getSupportLanguage langs (ToLower uni tag) w = (c, w)"
proof -
  from assms(1,2,3) obtain m where loop: "objLoop result Map.empty = Inr m"
    and langs: "langs = Some m"
    by (auto simp: loadSupportCodeLanguage_def split: sum.splits)
  have "m a = Some c"
    using objLoop_result[OF loop assms(8)] assms(4,5,6,7) by blast
  then show ?thesis by (simp add: getSupportLanguage_def langs assms(9,10))
qed

theorem alias_lookup_lowercase_witness:
  "loadSupportCodeLanguage (\<lambda>f. Inr ''dataset'')
      (\<lambda>d. Inr [[''name'' \<mapsto> JString ''python'',
                  ''aliases'' \<mapsto> JArray [JString ''py'', JString ''python'']],
                 [''name'' \<mapsto> JString ''go'', ''aliases'' \<mapsto> JArray [JString ''golang'']]])
      ''supported_code_language.json'' \<lparr>buf = [], stderr = []\<rparr>
     = Inr (Some [''py'' \<mapsto> ''python'', ''python'' \<mapsto> ''python'', ''golang'' \<mapsto> ''go''],
            \<lparr>buf = [], stderr = []\<rparr>)
   \<and> getSupportLanguage (Some [''py'' \<mapsto> ''python'', ''python'' \<mapsto> ''python'', ''golang'' \<mapsto> ''go''])
        (ToLower id ''PyThon'') \<lparr>buf = [], stderr = []\<rparr>
     = (''python'', \<lparr>buf = [], stderr = []\<rparr>)
   \<and> getSupportLanguage (Some [''py'' \<mapsto> ''python'', ''python'' \<mapsto> ''python'', ''golang'' \<mapsto> ''go''])
        (ToLower id ''GOLANG'') \<lparr>buf = [], stderr = []\<rparr>
     = (''go'', \<lparr>buf = [], stderr = []\<rparr>)"
proof -
  let ?py = "[''name'' \<mapsto> JString ''python'', ''aliases'' \<mapsto> JArray [JString ''py'', JString ''python'']]"
  let ?go = "[''name'' \<mapsto> JString ''go'', ''aliases'' \<mapsto> JArray [JString ''golang'']]"
  have load: "loadSupportCodeLanguage (\<lambda>f. Inr ''dataset'') (\<lambda>d. Inr [?py, ?go])
                ''supported_code_language.json'' \<lparr>buf = [], stderr = []\<rparr>
              = Inr (Some [''py'' \<mapsto> ''python'', ''python'' \<mapsto> ''python'', ''golang'' \<mapsto> ''go''],
                     \<lparr>buf = [], stderr = []\<rparr>)"
    by (simp add: loadSupportCodeLanguage_def assertString_def assertSlice_def)
  have l1: "ToLower id ''python'' = ''python''" by code_simp
  have l2: "ToLower id ''PyThon'' = ToLower id ''python''" by code_simp
  have l3: "ToLower id ''golang'' = ''golang''" by code_simp
  have l4: "ToLower id ''GOLANG'' = ToLower id ''golang''" by code_simp
  have u1: "\<forall>obj' \<in> set [?py, ?go]. \<forall>c' as'. obj' ''name'' = Some (JString c') \<longrightarrow>
           obj' ''aliases'' = Some (JArray as') \<longrightarrow> JString ''python'' \<in> set as' \<longrightarrow> c' = ''python''"
    by simp
  have u2: "\<forall>obj' \<in> set [?py, ?go]. \<forall>c' as'. obj' ''name'' = Some (JString c') \<longrightarrow>
           obj' ''aliases'' = Some (JArray as') \<longrightarrow> JString ''golang'' \<in> set as' \<longrightarrow> c' = ''go''"
    by simp
  have a: "getSupportLanguage (Some [''py'' \<mapsto> ''python'', ''python'' \<mapsto> ''python'', ''golang'' \<mapsto> ''go''])
        (ToLower id ''PyThon'') \<lparr>buf = [], stderr = []\<rparr>
     = (''python'', \<lparr>buf = [], stderr = []\<rparr>)"
    by (rule alias_lookup_lowercase[OF load _ _ _ _ _ _ u1 l1 l2, of "''dataset''" ?py
          "[JString ''py'', JString ''python'']"]) simp_all
  have b: "getSupportLanguage (Some [''py'' \<mapsto> ''python'', ''python'' \<mapsto> ''python'', ''golang'' \<mapsto> ''go''])
        (ToLower id ''GOLANG'') \<lparr>buf = [], stderr = []\<rparr>
     = (''go'', \<lparr>buf = [], stderr = []\<rparr>)"
    by (rule alias_lookup_lowercase[OF load _ _ _ _ _ _ u2 l3 l4, of "''dataset''" ?go
          "[JString ''golang'']"]) simp_all
  from load a b show ?thesis by blast
qed

text \<open>
  C8 as stated fails: the alias \<open>C#\<close> is stored as written, the tag \<open>C#\<close> is looked up
  as \<open>c#\<close>, and the lookup falls back to \<open>plain\<close>.
\<close>

theorem alias_case_counterexample:
  "(case loadSupportCodeLanguage (\<lambda>f. Inr ''dataset'')
           (\<lambda>d. Inr [[''name'' \<mapsto> JString ''csharp'', ''aliases'' \<mapsto> JArray [JString ''C#'']]])
           ''supported_code_language.json'' \<lparr>buf = [], stderr = []\<rparr> of
      Inl e \<Rightarrow> Inl e
    | Inr (langs, w) \<Rightarrow> Inr (fst (getSupportLanguage langs (ToLower id ''C#'') w)))
   = Inr ''plain''"
proof -
  have "ToLower id ''C#'' = ''c#''" by code_simp
  then show ?thesis
    by (simp add: loadSupportCodeLanguage_def assertString_def assertSlice_def
        getSupportLanguage_def DefaultCodeBlockLanguage_def)
qed

text \<open>
  C9, as amended. \<open>getSupportLanguage\<close> has a value for every table and every key (it
  has no failing branch), and the value is the empty string exactly when there is no table
  and the key is empty, or the table maps the key to the empty name.
\<close>

theorem getSupportLanguage_empty_iff:
  "fst (getSupportLanguage langs key w) = [] \<longleftrightarrow>
     (langs = None \<and> key = []) \<or> (\<exists>m. langs = Some m \<and> m key = Some [])"
  by (auto simp: getSupportLanguage_def DefaultCodeBlockLanguage_def split: option.splits)

theorem getSupportLanguage_empty_iff_witness:
  "fst (getSupportLanguage None ''golang'' \<lparr>buf = [], stderr = []\<rparr>) \<noteq> []
   \<and> fst (getSupportLanguage (Some [''golang'' \<mapsto> ''go'']) ''golang'' \<lparr>buf = [], stderr = []\<rparr>) \<noteq> []
   \<and> fst (getSupportLanguage (Some [''golang'' \<mapsto> ''go'']) [] \<lparr>buf = [], stderr = []\<rparr>) \<noteq> []"
  using getSupportLanguage_empty_iff[of None "''golang''" "\<lparr>buf = [], stderr = []\<rparr>"]
    getSupportLanguage_empty_iff[of "Some [''golang'' \<mapsto> ''go'']" "''golang''" "\<lparr>buf = [], stderr = []\<rparr>"]
    getSupportLanguage_empty_iff[of "Some [''golang'' \<mapsto> ''go'']" "[]" "\<lparr>buf = [], stderr = []\<rparr>"]
  by simp

text \<open>
  C9 as stated fails: with no table the empty key comes back unchanged, and a table can
  map a key to the empty name.
\<close>

theorem getSupportLanguage_empty_counterexample:
  "fst (getSupportLanguage None [] \<lparr>buf = [], stderr = []\<rparr>) = []
   \<and> fst (getSupportLanguage (Some [''txt'' \<mapsto> []]) ''txt'' \<lparr>buf = [], stderr = []\<rparr>) = []"
  by (simp add: getSupportLanguage_def)

text \<open>
  C10. Whatever a line emits holds its key and its value byte for byte: both are
  contiguous parts of the line (\<open>TrimSpace\<close> only cuts at the two ends), placed between
  fixed pieces of markup, with no character replaced. The bytes \<open>"\<close>, \<open><\<close>, \<open>&\<close> and
  \<open>]]>\<close> therefore reach the attribute, the parameter and the content section as they
  were written.
\<close>

theorem macroLine_verbatim:
  \<open>(CHR '':'' \<notin> set left \<and> macroLine r (left @ CHR '':'' # right) (ms, ps) = Inr (ms', ps') \<longrightarrow>
      sublist (TrimSpace left) left \<and> sublist (TrimSpace right) right
      \<and> ((ms', ps') = (ms @ '' ac:'' @ TrimSpace left @ ''="'' @ TrimSpace right @ ''"'', ps)
         \<or> (ms', ps') = (ms, ps @ ''<ac:'' @ TrimSpace left @ ''>'' @ TrimSpace right
                                @ ''</ac:'' @ TrimSpace left @ ''>'')
         \<or> (ms', ps') = (ms, ps @ ''<ac:parameter ac:name="'' @ TrimSpace left @ ''">''
                                @ TrimSpace right @ ''</ac:parameter>'')))
   \<and> (CHR '':'' \<notin> set line \<and> macroLine r line (ms, ps) = Inr (ms', ps') \<longrightarrow>
        sublist (TrimSpace line) line
        \<and> (ms', ps') = (ms, ps @ ''<ac:parameter ac:name="">'' @ TrimSpace line
                               @ ''</ac:parameter>''))\<close>
proof (intro conjI impI)
  assume a: \<open>CHR '':'' \<notin> set left \<and> macroLine r (left @ CHR '':'' # right) (ms, ps) = Inr (ms', ps')\<close>
  show "sublist (TrimSpace left) left" "sublist (TrimSpace right) right"
    by (rule TrimSpace_sublist)+
  from a have nc: "CHR '':'' \<notin> set left" by simp
  from a show \<open>(ms', ps') = (ms @ '' ac:'' @ TrimSpace left @ ''="'' @ TrimSpace right @ ''"'', ps)
         \<or> (ms', ps') = (ms, ps @ ''<ac:'' @ TrimSpace left @ ''>'' @ TrimSpace right
                                @ ''</ac:'' @ TrimSpace left @ ''>'')
         \<or> (ms', ps') = (ms, ps @ ''<ac:parameter ac:name="'' @ TrimSpace left @ ''">''
                                @ TrimSpace right @ ''</ac:parameter>'')\<close>
    unfolding macroLine_colon[OF nc]
    by (auto split: list.splits if_splits)
next
  assume a: \<open>CHR '':'' \<notin> set line \<and> macroLine r line (ms, ps) = Inr (ms', ps')\<close>
  show "sublist (TrimSpace line) line" by (rule TrimSpace_sublist)
  from a have nc: "CHR '':'' \<notin> set line" by simp
  from a show \<open>(ms', ps') = (ms, ps @ ''<ac:parameter ac:name="">'' @ TrimSpace line
                               @ ''</ac:parameter>'')\<close>
    unfolding macroLine_no_colon[OF nc] by simp
qed

theorem macroLine_verbatim_witness:
  \<open>macroLine NewConfluenceFencedCodeBlockHTMLRender ''a"<&: x"<&]]>\<newline>'' ([], [])
      = Inr ('' ac:a"<&="x"<&]]>"'', [])
   \<and> sublist ''a"<&'' ''a"<&'' \<and> sublist ''x"<&]]>'' '' x"<&]]>\<newline>''
   \<and> macroLine NewConfluenceFencedCodeBlockHTMLRender '' a"<&: x"<&]]>\<newline>'' ([], [])
      = Inr ([], ''<ac:parameter ac:name="a"<&">x"<&]]></ac:parameter>'')
   \<and> macroLine NewConfluenceFencedCodeBlockHTMLRender ''rich-text-body: x"<&]]>\<newline>'' ([], [])
      = Inr ([], ''<ac:rich-text-body>x"<&]]></ac:rich-text-body>'')
   \<and> macroLine NewConfluenceFencedCodeBlockHTMLRender ''x"<&]]>\<newline>'' ([], [])
      = Inr ([], ''<ac:parameter ac:name="">x"<&]]></ac:parameter>'')
   \<and> sublist ''x"<&]]>'' ''x"<&]]>\<newline>''\<close>
proof -
  have m1: \<open>macroLine NewConfluenceFencedCodeBlockHTMLRender (''a"<&'' @ CHR '':'' # '' x"<&]]>\<newline>'') ([], [])
      = Inr ('' ac:a"<&="x"<&]]>"'', [])\<close> by code_simp
  have m2: \<open>macroLine NewConfluenceFencedCodeBlockHTMLRender ('' a"<&'' @ CHR '':'' # '' x"<&]]>\<newline>'') ([], [])
      = Inr ([], ''<ac:parameter ac:name="a"<&">x"<&]]></ac:parameter>'')\<close> by code_simp
  have m3: \<open>macroLine NewConfluenceFencedCodeBlockHTMLRender (''rich-text-body'' @ CHR '':'' # '' x"<&]]>\<newline>'') ([], [])
      = Inr ([], ''<ac:rich-text-body>x"<&]]></ac:rich-text-body>'')\<close> by code_simp
  have m4: \<open>macroLine NewConfluenceFencedCodeBlockHTMLRender ''x"<&]]>\<newline>'' ([], [])
      = Inr ([], ''<ac:parameter ac:name="">x"<&]]></ac:parameter>'')\<close> by code_simp
  have t1: \<open>TrimSpace ''a"<&'' = ''a"<&''\<close> by code_simp
  have t2: \<open>TrimSpace '' x"<&]]>\<newline>'' = ''x"<&]]>''\<close> by code_simp
  have t3: \<open>TrimSpace ''x"<&]]>\<newline>'' = ''x"<&]]>''\<close> by code_simp
  note a = macroLine_verbatim[where left = \<open>''a"<&''\<close> and right = \<open>'' x"<&]]>\<newline>''\<close>
      and r = NewConfluenceFencedCodeBlockHTMLRender and ms = "[]" and ps = "[]"
      and ms' = \<open>'' ac:a"<&="x"<&]]>"''\<close> and ps' = "[]"
      and line = \<open>''x"<&]]>\<newline>''\<close>]
  note b = macroLine_verbatim[where left = \<open>''a"<&''\<close> and right = \<open>'' x"<&]]>\<newline>''\<close>
      and r = NewConfluenceFencedCodeBlockHTMLRender and ms = "[]" and ps = "[]"
      and ms' = "[]" and ps' = \<open>''<ac:parameter ac:name="">x"<&]]></ac:parameter>''\<close>
      and line = \<open>''x"<&]]>\<newline>''\<close>]
  show ?thesis using a b m1 m2 m3 m4 by (simp add: t1 t2 t3)
qed

end
